theory Spec2Isabelle
  imports Main "HOL-Library.Sublist" "HOL-Library.Multiset"
begin

section \<open>Python strings\<close>

text \<open>
  A Python \<^verbatim>\<open>str\<close> is a sequence of Unicode code points. A code point is a natural
  number, a string a list of them. ASCII literals of the script are written through
  \<open>ascii\<close>; the status glyphs of its messages are given by their code points.
\<close>

type_synonym codepoint = nat
type_synonym pystr = "codepoint list"

definition ascii :: "string \<Rightarrow> pystr" where
  "ascii s = map of_char s"

text \<open>
  The standard library classifies characters by tables of the Unicode database, which are
  not part of the script. Below 128 the classification is fixed and written out; above, it
  is a parameter of the model.
\<close>

record unicode_db =
  uni_space :: "codepoint \<Rightarrow> bool"
  uni_alnum :: "codepoint \<Rightarrow> bool"

text \<open>\<^verbatim>\<open>str.isspace\<close> on one character: what \<^verbatim>\<open>\s\<close> matches and \<^verbatim>\<open>strip()\<close> removes.\<close>

definition is_space :: "unicode_db \<Rightarrow> codepoint \<Rightarrow> bool" where
  "is_space u c =
     (if c < 128 then (9 \<le> c \<and> c \<le> 13) \<or> (28 \<le> c \<and> c \<le> 32) else uni_space u c)"

text \<open>What \<^verbatim>\<open>\w\<close> matches: an alphanumeric character or the underscore.\<close>

definition is_word :: "unicode_db \<Rightarrow> codepoint \<Rightarrow> bool" where
  "is_word u c =
     (if c < 128
      then (48 \<le> c \<and> c \<le> 57) \<or> (65 \<le> c \<and> c \<le> 90) \<or> (97 \<le> c \<and> c \<le> 122) \<or> c = 95
      else uni_alnum u c)"

text \<open>\<^verbatim>\<open>s.strip()\<close>\<close>

definition py_strip :: "unicode_db \<Rightarrow> pystr \<Rightarrow> pystr" where
  "py_strip u s = rev (dropWhile (is_space u) (rev (dropWhile (is_space u) s)))"

text \<open>\<^verbatim>\<open>s.split(sep)\<close> for a separator of one character: never the empty list.\<close>

fun py_split :: "codepoint \<Rightarrow> pystr \<Rightarrow> pystr list" where
  "py_split sep [] = [[]]"
| "py_split sep (c # cs) =
     (if c = sep then [] # py_split sep cs
      else (case py_split sep cs of
              [] \<Rightarrow> [[c]]
            | l # ls \<Rightarrow> (c # l) # ls))"

text \<open>\<^verbatim>\<open>sub in s\<close>\<close>

fun py_in :: "pystr \<Rightarrow> pystr \<Rightarrow> bool" where
  "py_in sub [] = (sub = [])"
| "py_in sub (c # cs) = (prefix sub (c # cs) \<or> py_in sub cs)"

text \<open>\<^verbatim>\<open>s.endswith(c)\<close> for one character\<close>

definition py_endswith :: "pystr \<Rightarrow> codepoint \<Rightarrow> bool" where
  "py_endswith s c = (s \<noteq> [] \<and> last s = c)"

text \<open>\<^verbatim>\<open>sep.join(xs)\<close>\<close>

fun py_join :: "pystr \<Rightarrow> pystr list \<Rightarrow> pystr" where
  "py_join sep [] = []"
| "py_join sep [x] = x"
| "py_join sep (x # y # ys) = x @ sep @ py_join sep (y # ys)"

text \<open>\<^verbatim>\<open>str(n)\<close> for a length or a line number\<close>

function py_str_nat :: "nat \<Rightarrow> pystr" where
  "py_str_nat n = (if n < 10 then [48 + n] else py_str_nat (n div 10) @ [48 + n mod 10])"
  by pat_completeness auto
termination
  by (relation "measure id") auto

section \<open>Regular expressions\<close>

text \<open>
  The fragment of \<^verbatim>\<open>re\<close> that the script's five patterns use. Repetition is only ever
  applied to a single character class, so \<open>Star\<close> and \<open>Plus\<close> carry the class.
\<close>

datatype rx =
    Eps                              \<comment> \<open>the empty pattern\<close>
  | Bol                              \<comment> \<open>\<^verbatim>\<open>^\<close> (no MULTILINE flag)\<close>
  | Chr codepoint                    \<comment> \<open>a literal character\<close>
  | Cls "codepoint \<Rightarrow> bool"          \<comment> \<open>one character of a class\<close>
  | Star "codepoint \<Rightarrow> bool"         \<comment> \<open>\<^verbatim>\<open>c*\<close>, greedy\<close>
  | Plus "codepoint \<Rightarrow> bool"         \<comment> \<open>\<^verbatim>\<open>c+\<close>, greedy\<close>
  | Seq rx rx
  | Alt rx rx                        \<comment> \<open>\<^verbatim>\<open>a|b\<close>\<close>
  | Opt rx                           \<comment> \<open>\<^verbatim>\<open>(?:a)?\<close>, greedy\<close>
  | Grp rx                           \<comment> \<open>a capturing group\<close>

text \<open>
  \<open>rx_match r b s\<close> lists the ways \<open>r\<close> matches a prefix of \<open>s\<close>, in the order in which
  the backtracking matcher tries them: the captured groups and the rest of the input.
  \<open>b\<close> says whether \<open>s\<close> starts at the beginning of the subject string.
\<close>

fun rx_match :: "rx \<Rightarrow> bool \<Rightarrow> pystr \<Rightarrow> (pystr list \<times> pystr) list" where
  "rx_match Eps b s = [([], s)]"
| "rx_match Bol b s = (if b then [([], s)] else [])"
| "rx_match (Chr c) b s =
     (case s of [] \<Rightarrow> [] | x # xs \<Rightarrow> if x = c then [([], xs)] else [])"
| "rx_match (Cls p) b s =
     (case s of [] \<Rightarrow> [] | x # xs \<Rightarrow> if p x then [([], xs)] else [])"
| "rx_match (Star p) b s =
     map (\<lambda>k. ([], drop k s)) (rev [0 ..< Suc (length (takeWhile p s))])"
| "rx_match (Plus p) b s =
     map (\<lambda>k. ([], drop k s)) (rev [1 ..< Suc (length (takeWhile p s))])"
| "rx_match (Seq r1 r2) b s =
     concat (map (\<lambda>(g1, s1).
                map (\<lambda>(g2, s2). (g1 @ g2, s2))
                    (rx_match r2 (b \<and> length s1 = length s) s1))
             (rx_match r1 b s))"
| "rx_match (Alt r1 r2) b s = rx_match r1 b s @ rx_match r2 b s"
| "rx_match (Opt r) b s = rx_match r b s @ [([], s)]"
| "rx_match (Grp r) b s =
     map (\<lambda>(g, s'). (take (length s - length s') s # g, s')) (rx_match r b s)"

text \<open>\<^verbatim>\<open>re.match(r, s)\<close>: the groups of the first match at the start of \<open>s\<close>.\<close>

definition re_match :: "rx \<Rightarrow> pystr \<Rightarrow> pystr list option" where
  "re_match r s = (case rx_match r True s of [] \<Rightarrow> None | (g, _) # _ \<Rightarrow> Some g)"

text \<open>\<^verbatim>\<open>re.search(r, s)\<close>: the groups of the leftmost match, trying every start position.\<close>

fun re_search_from :: "rx \<Rightarrow> bool \<Rightarrow> pystr \<Rightarrow> pystr list option" where
  "re_search_from r b [] =
     (case rx_match r b [] of (g, _) # _ \<Rightarrow> Some g | [] \<Rightarrow> None)"
| "re_search_from r b (c # cs) =
     (case rx_match r b (c # cs) of
        (g, _) # _ \<Rightarrow> Some g
      | [] \<Rightarrow> re_search_from r False cs)"

definition re_search :: "rx \<Rightarrow> pystr \<Rightarrow> pystr list option" where
  "re_search r s = re_search_from r True s"

text \<open>A sequence of parts, a literal character, and pattern text without operators.\<close>

fun seq :: "rx list \<Rightarrow> rx" where
  "seq [] = Eps"
| "seq [r] = r"
| "seq (r # rs) = Seq r (seq rs)"

definition ch :: "char \<Rightarrow> rx" where
  "ch c = Chr (of_char c)"

definition lit :: "string \<Rightarrow> rx" where
  "lit s = seq (map ch s)"

section \<open>The script\<close>

subsection \<open>The patterns\<close>

text \<open>\<^verbatim>\<open>^\s*(?:final\s+)?class\s+(\w+)\s*:\s*XCTestCase\<close>\<close>

definition class_pattern :: "unicode_db \<Rightarrow> rx" where
  "class_pattern u =
     seq [Bol, Star (is_space u), Opt (seq [lit ''final'', Plus (is_space u)]),
          lit ''class'', Plus (is_space u), Grp (Plus (is_word u)), Star (is_space u),
          ch CHR '':'', Star (is_space u), lit ''XCTestCase'']"

text \<open>\<^verbatim>\<open>^\s*static\s+(?:var|let)\s+allTests\s*[:=]\<close>\<close>

definition alltests_pattern1 :: "unicode_db \<Rightarrow> rx" where
  "alltests_pattern1 u =
     seq [Bol, Star (is_space u), lit ''static'', Plus (is_space u),
          Alt (lit ''var'') (lit ''let''), Plus (is_space u), lit ''allTests'',
          Star (is_space u), Cls (\<lambda>c. c = of_char CHR '':'' \<or> c = of_char CHR ''='')]"

text \<open>\<^verbatim>\<open>^\s*static\s+let\s+allTests\s*:\s*\[\(String,\s*\([^)]+\)\s*->\s*\(\)\s*throws\s*->\s*Void\)\]\s*=\<close>\<close>

definition alltests_pattern2 :: "unicode_db \<Rightarrow> rx" where
  "alltests_pattern2 u =
     seq [Bol, Star (is_space u), lit ''static'', Plus (is_space u), lit ''let'',
          Plus (is_space u), lit ''allTests'', Star (is_space u), ch CHR '':'',
          Star (is_space u), lit ''[(String,'', Star (is_space u), ch CHR ''('',
          Plus (\<lambda>c. c \<noteq> of_char CHR '')''), ch CHR '')'', Star (is_space u), lit ''->'',
          Star (is_space u), lit ''()'', Star (is_space u), lit ''throws'',
          Star (is_space u), lit ''->'', Star (is_space u), lit ''Void)]'',
          Star (is_space u), ch CHR ''='']"

definition alltests_patterns :: "unicode_db \<Rightarrow> rx list" where
  "alltests_patterns u = [alltests_pattern1 u, alltests_pattern2 u]"

text \<open>\<^verbatim>\<open>^\s*func\s+(test\w+)\s*\([^)]*\)\s*(?:throws\s+)?(?:async\s+)?(?:throws\s+)?(?:async\s+)?\s*\{\<close>\<close>

definition test_method_pattern :: "unicode_db \<Rightarrow> rx" where
  "test_method_pattern u =
     seq [Bol, Star (is_space u), lit ''func'', Plus (is_space u),
          Grp (Seq (lit ''test'') (Plus (is_word u))), Star (is_space u), ch CHR ''('',
          Star (\<lambda>c. c \<noteq> of_char CHR '')''), ch CHR '')'', Star (is_space u),
          Opt (seq [lit ''throws'', Plus (is_space u)]),
          Opt (seq [lit ''async'', Plus (is_space u)]),
          Opt (seq [lit ''throws'', Plus (is_space u)]),
          Opt (seq [lit ''async'', Plus (is_space u)]),
          Star (is_space u), ch CHR ''{'']"

text \<open>\<^verbatim>\<open>"([^"]+)"\<close>\<close>

definition quoted_pattern :: rx where
  "quoted_pattern = seq [ch CHR 0x22, Grp (Plus (\<lambda>c. c \<noteq> of_char CHR 0x22)), ch CHR 0x22]"

subsection \<open>The record of one test class\<close>

record TestClassInfo =
  filename :: pystr
  class_name :: pystr
  line_number :: nat
  has_alltests :: bool
  alltests_signature :: "pystr option"
  test_methods :: "pystr list"
  alltests_methods :: "pystr list"

text \<open>The constructor.\<close>

definition new_TestClassInfo :: "pystr \<Rightarrow> pystr \<Rightarrow> nat \<Rightarrow> TestClassInfo" where
  "new_TestClassInfo f c n =
     \<lparr>filename = f, class_name = c, line_number = n, has_alltests = False,
      alltests_signature = None, test_methods = [], alltests_methods = []\<rparr>"

text \<open>
  What the script can raise: \<^verbatim>\<open>open\<close> and \<^verbatim>\<open>read\<close> on a file that cannot be read or
  decoded, and \<^verbatim>\<open>in\<close> applied to \<^verbatim>\<open>None\<close>.
\<close>

datatype py_error = ReadError | TypeError

subsection \<open>\<^verbatim>\<open>find_test_files\<close>\<close>

text \<open>
  The directory \<^verbatim>\<open>Tests/SwiftZlibTests\<close>: \<open>None\<close> when it does not exist, otherwise the
  paths that \<^verbatim>\<open>rglob("*.swift")\<close> yields, in its order, each with the string that
  \<^verbatim>\<open>f.read()\<close> returns for the file (\<open>None\<close> when opening or reading raises). The tree
  does not change during a run, so a file reads the same each time it is opened. The
  function returns what it prints and the list.
\<close>

type_synonym test_dir = "(pystr \<times> pystr option) list option"

definition find_test_files :: "test_dir \<Rightarrow> pystr list \<times> (pystr \<times> pystr option) list" where
  "find_test_files d =
     (case d of
        None \<Rightarrow> ([[0x274C] @ ascii '' Tests/SwiftZlibTests directory not found''], [])
      | Some swift_files \<Rightarrow> ([], swift_files))"

subsection \<open>\<^verbatim>\<open>extract_test_classes\<close>\<close>

text \<open>
  The loop over \<^verbatim>\<open>enumerate(lines, 1)\<close>; \<open>i\<close> is the number of the first line of \<open>ls\<close>.
  A match of the pattern always has its group 1 (\<open>class_pattern_group1\<close> below; likewise
  for the two other patterns with a group), so the last branch of the \<open>case\<close> is the
  branch of no match.
\<close>

fun extract_lines :: "unicode_db \<Rightarrow> pystr \<Rightarrow> nat \<Rightarrow> pystr list \<Rightarrow> TestClassInfo list" where
  "extract_lines u path i [] = []"
| "extract_lines u path i (line # ls) =
     (case re_match (class_pattern u) (py_strip u line) of
        Some (name # _) \<Rightarrow>
          new_TestClassInfo path name i # extract_lines u path (Suc i) ls
      | _ \<Rightarrow> extract_lines u path (Suc i) ls)"

definition extract_test_classes :: "unicode_db \<Rightarrow> pystr \<Rightarrow> pystr \<Rightarrow> TestClassInfo list" where
  "extract_test_classes u path content = extract_lines u path 1 (py_split 10 content)"

subsection \<open>\<^verbatim>\<open>analyze_test_class\<close>\<close>

text \<open>The inner loop over the patterns, left by \<^verbatim>\<open>break\<close> at the first that matches.\<close>

fun try_patterns :: "unicode_db \<Rightarrow> rx list \<Rightarrow> pystr \<Rightarrow> TestClassInfo \<Rightarrow> TestClassInfo" where
  "try_patterns u [] line t = t"
| "try_patterns u (pattern # ps) line t =
     (if re_search pattern line \<noteq> None
      then t\<lparr>has_alltests := True, alltests_signature := Some (py_strip u line)\<rparr>
      else try_patterns u ps line t)"

text \<open>The outer loop over the lines: it runs to the end of the file.\<close>

fun find_alltests :: "unicode_db \<Rightarrow> pystr list \<Rightarrow> TestClassInfo \<Rightarrow> TestClassInfo" where
  "find_alltests u [] t = t"
| "find_alltests u (line # ls) t =
     find_alltests u ls (try_patterns u (alltests_patterns u) line t)"

text \<open>The names that the second loop appends to \<^verbatim>\<open>test_methods\<close>.\<close>

fun find_test_methods :: "unicode_db \<Rightarrow> pystr list \<Rightarrow> pystr list" where
  "find_test_methods u [] = []"
| "find_test_methods u (line # ls) =
     (case re_search (test_method_pattern u) line of
        Some (method_name # _) \<Rightarrow> method_name # find_test_methods u ls
      | _ \<Rightarrow> find_test_methods u ls)"

text \<open>The test that switches \<^verbatim>\<open>in_alltests\<close> on.\<close>

definition alltests_start :: "pystr \<Rightarrow> bool" where
  "alltests_start line =
     (py_in (ascii ''static'') line \<and> py_in (ascii ''allTests'') line \<and> py_in (ascii ''='') line)"

text \<open>The name that a line contributes inside the array: none or one.\<close>

definition quoted_name :: "pystr \<Rightarrow> pystr list" where
  "quoted_name line =
     (case re_search quoted_pattern line of Some (method_name # _) \<Rightarrow> [method_name] | _ \<Rightarrow> [])"

definition array_end :: "unicode_db \<Rightarrow> pystr \<Rightarrow> bool" where
  "array_end u line = py_endswith (py_strip u line) (of_char CHR '']'')"

text \<open>
  The names that the third loop appends to \<^verbatim>\<open>alltests_methods\<close>, from the value of
  \<^verbatim>\<open>in_alltests\<close> and the lines still to read.
\<close>

fun scan_alltests :: "unicode_db \<Rightarrow> bool \<Rightarrow> pystr list \<Rightarrow> pystr list" where
  "scan_alltests u in_alltests [] = []"
| "scan_alltests u in_alltests (line # ls) =
     (if alltests_start line then scan_alltests u True ls
      else if in_alltests
      then quoted_name line @ (if array_end u line then [] else scan_alltests u True ls)
      else scan_alltests u False ls)"

definition analyze_lines :: "unicode_db \<Rightarrow> pystr list \<Rightarrow> TestClassInfo \<Rightarrow> TestClassInfo" where
  "analyze_lines u lines t =
     (let t1 = find_alltests u lines t;
          t2 = t1\<lparr>test_methods := test_methods t1 @ find_test_methods u lines\<rparr>
      in if has_alltests t2
         then t2\<lparr>alltests_methods := alltests_methods t2 @ scan_alltests u False lines\<rparr>
         else t2)"

definition analyze_test_class :: "unicode_db \<Rightarrow> pystr \<Rightarrow> TestClassInfo \<Rightarrow> TestClassInfo" where
  "analyze_test_class u content t = analyze_lines u (py_split 10 content) t"

subsection \<open>\<^verbatim>\<open>check_alltests_coverage\<close>\<close>

text \<open>
  \<^verbatim>\<open>set(xs) - set(ys)\<close>, listed without repetition in the order of \<open>xs\<close>. The order in
  which Python iterates over a set of strings is not fixed by the script: it is the
  parameter \<open>set_iter\<close>, applied to this list when the set is joined.
\<close>

definition py_set_diff :: "pystr list \<Rightarrow> pystr list \<Rightarrow> pystr list" where
  "py_set_diff xs ys = remdups (filter (\<lambda>x. x \<notin> set ys) xs)"

definition missing_property_issue :: pystr where
  "missing_property_issue = [0x274C] @ ascii '' Missing allTests property''"

definition signature_issue :: pystr where
  "signature_issue =
     [0x26A0, 0xFE0F] @ ascii ''  Consider using '' @ [39] @ ascii ''static var allTests''
       @ [39] @ ascii '' for consistency''"

definition missing_methods_issue :: "pystr list \<Rightarrow> pystr" where
  "missing_methods_issue names =
     [0x274C] @ ascii '' Missing test methods in allTests: '' @ py_join (ascii '', '') names"

definition extra_methods_issue :: "pystr list \<Rightarrow> pystr" where
  "extra_methods_issue names =
     [0x26A0, 0xFE0F] @ ascii ''  Extra methods in allTests (may be intentional): ''
       @ py_join (ascii '', '') names"

definition check_alltests_coverage ::
  "(pystr list \<Rightarrow> pystr list) \<Rightarrow> TestClassInfo \<Rightarrow> py_error + pystr list" where
  "check_alltests_coverage set_iter t =
     (if \<not> has_alltests t then Inr [missing_property_issue]
      else case alltests_signature t of
        None \<Rightarrow> Inl TypeError
      | Some sig \<Rightarrow>
          (let missing_methods = py_set_diff (test_methods t) (alltests_methods t);
               extra_methods = py_set_diff (alltests_methods t) (test_methods t)
           in Inr ((if \<not> py_in (ascii ''static var allTests'') sig then [signature_issue] else [])
                 @ (if missing_methods \<noteq> []
                    then [missing_methods_issue (set_iter missing_methods)] else [])
                 @ (if extra_methods \<noteq> []
                    then [extra_methods_issue (set_iter extra_methods)] else []))))"

subsection \<open>\<^verbatim>\<open>main\<close>\<close>

text \<open>
  The loop that extracts and analyzes: each file is read, its classes are extracted, and
  each class is analyzed against the same file.
\<close>

fun process_files ::
  "unicode_db \<Rightarrow> (pystr \<times> pystr option) list \<Rightarrow> py_error + TestClassInfo list" where
  "process_files u [] = Inr []"
| "process_files u ((path, c) # fs) =
     (case c of
        None \<Rightarrow> Inl ReadError
      | Some content \<Rightarrow>
          (case process_files u fs of
             Inl e \<Rightarrow> Inl e
           | Inr ts \<Rightarrow>
               Inr (map (analyze_test_class u content) (extract_test_classes u path content)
                    @ ts)))"

definition class_header :: "TestClassInfo \<Rightarrow> pystr" where
  "class_header t =
     [10, 0x1F4C1] @ ascii '' '' @ filename t @ ascii '':'' @ py_str_nat (line_number t)
       @ ascii '' - '' @ class_name t"

text \<open>The loop that checks and reports: what it prints, and \<^verbatim>\<open>all_issues\<close>.\<close>

fun report ::
  "(pystr list \<Rightarrow> pystr list) \<Rightarrow> TestClassInfo list \<Rightarrow> py_error + (pystr list \<times> pystr list)"
  where
  "report set_iter [] = Inr ([], [])"
| "report set_iter (t # ts) =
     (case check_alltests_coverage set_iter t of
        Inl e \<Rightarrow> Inl e
      | Inr issues \<Rightarrow>
          (case report set_iter ts of
             Inl e \<Rightarrow> Inl e
           | Inr (out, all_issues) \<Rightarrow>
               Inr ((if issues \<noteq> []
                     then class_header t # map (\<lambda>issue. ascii ''   '' @ issue) issues
                     else []) @ out,
                    issues @ all_issues)))"

definition summary_line :: "nat \<Rightarrow> nat \<Rightarrow> pystr" where
  "summary_line n m =
     [10, 0x1F4CA] @ ascii '' Found '' @ py_str_nat n @ ascii '' test classes in ''
       @ py_str_nat m @ ascii '' files''"

definition success_lines :: "pystr list" where
  "success_lines = [[10, 0x2705] @ ascii '' All test classes have proper allTests properties!'']"

definition failure_lines :: "nat \<Rightarrow> pystr list" where
  "failure_lines n =
     [[10, 0x274C] @ ascii '' Found '' @ py_str_nat n @ ascii '' issues with allTests properties'',
      [10, 0x1F4A1] @ ascii '' Recommendations:'',
      ascii ''   - Add '' @ [39] @ ascii ''static var allTests = [...]'' @ [39]
        @ ascii '' to missing classes'',
      ascii ''   - Include all test methods in allTests array'',
      ascii ''   - Use consistent signature: static var allTests = [...]'']"

text \<open>What \<^verbatim>\<open>main\<close> prints, line by line, and what it returns.\<close>

definition main ::
  "unicode_db \<Rightarrow> (pystr list \<Rightarrow> pystr list) \<Rightarrow> test_dir \<Rightarrow> py_error + (pystr list \<times> int)" where
  "main u set_iter d =
     (let out0 = [[0x1F50D] @ ascii '' Checking allTests properties in test files...''];
          (out1, test_files) = find_test_files d
      in if test_files = []
         then Inr (out0 @ out1 @ [[0x274C] @ ascii '' No test files found''], 1)
         else case process_files u test_files of
           Inl e \<Rightarrow> Inl e
         | Inr test_classes \<Rightarrow>
             (case report set_iter test_classes of
                Inl e \<Rightarrow> Inl e
              | Inr (out3, all_issues) \<Rightarrow>
                  (let out2 = [summary_line (length test_classes) (length test_files)]
                   in if all_issues = []
                      then Inr (out0 @ out1 @ out2 @ out3 @ success_lines, 0)
                      else Inr (out0 @ out1 @ out2 @ out3 @ failure_lines (length all_issues),
                                1))))"

text \<open>
  \<^verbatim>\<open>sys.exit(main())\<close>: the status of the process. An exception that nothing catches ends
  the interpreter with status 1.
\<close>

definition exit_status :: "py_error + (pystr list \<times> int) \<Rightarrow> int" where
  "exit_status r = (case r of Inl _ \<Rightarrow> 1 | Inr (_, code) \<Rightarrow> code)"

section \<open>Notions of the specification\<close>

text \<open>The records that a run analyzes, and the issues that it accumulates.\<close>

definition run_classes :: "unicode_db \<Rightarrow> test_dir \<Rightarrow> TestClassInfo list" where
  "run_classes u d =
     (case process_files u (snd (find_test_files d)) of Inl _ \<Rightarrow> [] | Inr ts \<Rightarrow> ts)"

definition run_issues ::
  "unicode_db \<Rightarrow> (pystr list \<Rightarrow> pystr list) \<Rightarrow> test_dir \<Rightarrow> pystr list" where
  "run_issues u set_iter d =
     (case report set_iter (run_classes u d) of Inl _ \<Rightarrow> [] | Inr (_, all_issues) \<Rightarrow> all_issues)"

text \<open>Severity is the leading glyph of an issue: the cross mark blocks, the warning sign advises.\<close>

definition is_blocking :: "pystr \<Rightarrow> bool" where
  "is_blocking issue = prefix [0x274C] issue"

definition is_advisory :: "pystr \<Rightarrow> bool" where
  "is_advisory issue = prefix [0x26A0, 0xFE0F] issue"

text \<open>The lines of a list up to and including the first that satisfies \<open>P\<close>.\<close>

fun take_through :: "('a \<Rightarrow> bool) \<Rightarrow> 'a list \<Rightarrow> 'a list" where
  "take_through P [] = []"
| "take_through P (x # xs) = x # (if P x then [] else take_through P xs)"

text \<open>
  The registry contents as the specification words them: the first quoted literal of each
  line, up to and including the first line that ends the array.
\<close>

definition names_until_end :: "unicode_db \<Rightarrow> pystr list \<Rightarrow> pystr list" where
  "names_until_end u ls = concat (map quoted_name (take_through (array_end u) ls))"

text \<open>A line that one of the two declaration patterns matches.\<close>

definition is_alltests_line :: "unicode_db \<Rightarrow> pystr \<Rightarrow> bool" where
  "is_alltests_line u line = (\<exists>p \<in> set (alltests_patterns u). re_search p line \<noteq> None)"

text \<open>The classification of the ASCII range alone, for subjects that stay inside it.\<close>

definition ascii_db :: unicode_db where
  "ascii_db = \<lparr>uni_space = (\<lambda>_. False), uni_alnum = (\<lambda>_. False)\<rparr>"

text \<open>
  The invariant of a record: the flag is set exactly when the signature is present.
\<close>

definition consistent :: "TestClassInfo \<Rightarrow> bool" where
  "consistent t = (has_alltests t \<longleftrightarrow> alltests_signature t \<noteq> None)"

text \<open>Some file of the directory cannot be read.\<close>

definition read_fails :: "test_dir \<Rightarrow> bool" where
  "read_fails d = list_ex (\<lambda>f. snd f = None) (snd (find_test_files d))"

text \<open>
  The first quoted literal of a line, said directly: the text between the first double
  quote that is followed by at least one other character and then a double quote, and
  that closing quote.
\<close>

fun first_literal :: "pystr \<Rightarrow> pystr option" where
  "first_literal [] = None"
| "first_literal (c # cs) =
     (if c = 34 \<and> takeWhile (\<lambda>x. x \<noteq> 34) cs \<noteq> [] \<and> dropWhile (\<lambda>x. x \<noteq> 34) cs \<noteq> []
      then Some (takeWhile (\<lambda>x. x \<noteq> 34) cs)
      else first_literal cs)"

text \<open>
  A printed line, by what it is: the line of a \<^verbatim>\<open>missing\<close> issue with the names it lists,
  the line of an \<^verbatim>\<open>extra\<close> issue with the names it lists, or any other line with its text.
\<close>

datatype out_line = Plain pystr | Missing_names "pystr list" | Extra_names "pystr list"


text \<open>
  Two printed lines that are the same but for the order of the names of an issue: the same
  text, or the same kind of issue with the same names, each as often, in any order.
\<close>

fun same_but_order :: "out_line \<Rightarrow> out_line \<Rightarrow> bool" where
  "same_but_order (Plain a) (Plain b) = (a = b)"
| "same_but_order (Missing_names ns) (Missing_names ms) = (mset ns = mset ms)"
| "same_but_order (Extra_names ns) (Extra_names ms) = (mset ns = mset ms)"
| "same_but_order _ _ = False"




text \<open>What every run prints first.\<close>

definition banner :: "test_dir \<Rightarrow> pystr list" where
  "banner d = ([0x1F50D] @ ascii '' Checking allTests properties in test files...'')
                # fst (find_test_files d)"

section \<open>Evaluation of the matcher\<close>

text \<open>
  The results of a sequence, by recursion over the results of its first part: the same list
  as in \<open>rx_match\<close>, in a form that unfolds only on a result that is known.
\<close>

fun seq_results ::
  "rx \<Rightarrow> bool \<Rightarrow> pystr \<Rightarrow> (pystr list \<times> pystr) list \<Rightarrow> (pystr list \<times> pystr) list" where
  "seq_results r2 b s [] = []"
| "seq_results r2 b s ((g1, s1) # rest) =
     map (\<lambda>(g2, s2). (g1 @ g2, s2)) (rx_match r2 (b \<and> length s1 = length s) s1)
       @ seq_results r2 b s rest"

text \<open>
  The number of capturing groups of a pattern, and the patterns in which no group stands
  under an alternative or an option: there every match has all the groups.
\<close>

fun groups :: "rx \<Rightarrow> nat" where
  "groups (Grp r) = Suc (groups r)"
| "groups (Seq r1 r2) = groups r1 + groups r2"
| "groups (Alt r1 r2) = groups r1"
| "groups (Opt r) = groups r"
| "groups _ = 0"

fun plain :: "rx \<Rightarrow> bool" where
  "plain (Grp r) = plain r"
| "plain (Seq r1 r2) = (plain r1 \<and> plain r2)"
| "plain (Alt r1 r2) = (plain r1 \<and> plain r2 \<and> groups r1 = 0 \<and> groups r2 = 0)"
| "plain (Opt r) = (plain r \<and> groups r = 0)"
| "plain _ = True"

section \<open>Example inputs\<close>

text \<open>A file given by its lines, a path, and a name between double quotes.\<close>

definition py_lines :: "pystr list \<Rightarrow> pystr" where
  "py_lines ls = py_join [10] ls"

definition quoted :: "string \<Rightarrow> pystr" where
  "quoted s = [34] @ ascii s @ [34]"

definition foo_path :: pystr where
  "foo_path = ascii ''Tests/SwiftZlibTests/FooTests.swift''"

text \<open>The scenario of the specification, as it is written there: on one line.\<close>

definition foo_one_line :: pystr where
  "foo_one_line =
     ascii ''class FooTests : XCTestCase { func testA(){} func testB(){} static var allTests = [(''
       @ quoted ''testA'' @ ascii '', testA)] }''"

text \<open>The same declarations one per line, the entry of the registry on a line of its own.\<close>

definition foo_layout :: pystr where
  "foo_layout = py_lines
     [ascii ''class FooTests : XCTestCase {'',
      ascii ''    func testA(){}'',
      ascii ''    func testB(){}'',
      ascii ''    static var allTests = ['',
      ascii ''        ('' @ quoted ''testA'' @ ascii '', testA)'',
      ascii ''    ]'',
      ascii ''}'']"

definition foo_record :: TestClassInfo where
  "foo_record =
     \<lparr>filename = foo_path, class_name = ascii ''FooTests'', line_number = 1,
      has_alltests = True, alltests_signature = Some (ascii ''static var allTests = [''),
      test_methods = [ascii ''testA'', ascii ''testB''],
      alltests_methods = [ascii ''testA'']\<rparr>"

text \<open>A complete registry declared with \<^verbatim>\<open>let\<close>.\<close>

definition let_layout :: pystr where
  "let_layout = py_lines
     [ascii ''class FooTests : XCTestCase {'',
      ascii ''    func testA(){}'',
      ascii ''    static let allTests = ['',
      ascii ''        ('' @ quoted ''testA'' @ ascii '', testA)'',
      ascii ''    ]'',
      ascii ''}'']"

definition let_record :: TestClassInfo where
  "let_record =
     \<lparr>filename = foo_path, class_name = ascii ''FooTests'', line_number = 1,
      has_alltests = True, alltests_signature = Some (ascii ''static let allTests = [''),
      test_methods = [ascii ''testA''],
      alltests_methods = [ascii ''testA'']\<rparr>"

text \<open>A registry that lists the two test methods in the other order.\<close>

definition swapped_record :: TestClassInfo where
  "swapped_record =
     \<lparr>filename = foo_path, class_name = ascii ''FooTests'', line_number = 1,
      has_alltests = True, alltests_signature = Some (ascii ''static let allTests = [''),
      test_methods = [ascii ''testA'', ascii ''testB''],
      alltests_methods = [ascii ''testB'', ascii ''testA'']\<rparr>"

text \<open>An empty registry beside two test methods.\<close>

definition empty_registry_layout :: pystr where
  "empty_registry_layout = py_lines
     [ascii ''class FooTests : XCTestCase {'',
      ascii ''    func testA(){}'',
      ascii ''    func testB(){}'',
      ascii ''    static var allTests = ['',
      ascii ''    ]'',
      ascii ''}'']"

definition empty_registry_record :: TestClassInfo where
  "empty_registry_record =
     \<lparr>filename = foo_path, class_name = ascii ''FooTests'', line_number = 1,
      has_alltests = True, alltests_signature = Some (ascii ''static var allTests = [''),
      test_methods = [ascii ''testA'', ascii ''testB''],
      alltests_methods = []\<rparr>"

text \<open>Two registry declarations in one file.\<close>

definition two_registries :: pystr where
  "two_registries = py_lines
     [ascii ''static var allTests = ['',
      ascii '']'',
      ascii ''static let allTests = ['',
      ascii '']'']"

text \<open>Lines read inside a registry, the first of them a declaration of its own.\<close>

definition nested_lines :: "pystr list" where
  "nested_lines =
     [ascii ''static let allTests2 = []'',
      ascii ''('' @ quoted ''testX'' @ ascii '', testX)'',
      ascii '']'']"

text \<open>A registry on one line, followed by a second declaration that mentions it.\<close>

definition registry_line :: pystr where
  "registry_line = ascii ''static var allTests = [('' @ quoted ''testA'' @ ascii '', testA)]''"

definition more_line :: pystr where
  "more_line =
     ascii ''static let moreTests = allTests + [('' @ quoted ''testB'' @ ascii '', testB)]''"

definition label_line :: pystr where
  "label_line = ascii ''let label = '' @ quoted ''done''"

section \<open>Lemmas about the matcher\<close>

lemma seq_results_eq:
  "seq_results r2 b s ms =
     concat (map (\<lambda>(g1, s1). map (\<lambda>(g2, s2). (g1 @ g2, s2))
                    (rx_match r2 (b \<and> length s1 = length s) s1)) ms)"
  by (induction ms) auto

lemma rx_match_Seq: "rx_match (Seq r1 r2) b s = seq_results r2 b s (rx_match r1 b s)"
  by (simp add: seq_results_eq)

lemmas eval_defs = ascii_def ascii_db_def is_space_def is_word_def py_strip_def py_endswith_def
  re_match_def re_search_def ch_def lit_def class_pattern_def alltests_pattern1_def
  alltests_pattern2_def alltests_patterns_def test_method_pattern_def quoted_pattern_def
  new_TestClassInfo_def find_test_files_def extract_test_classes_def alltests_start_def
  quoted_name_def array_end_def analyze_lines_def analyze_test_class_def py_set_diff_def
  missing_property_issue_def signature_issue_def missing_methods_issue_def
  extra_methods_issue_def check_alltests_coverage_def is_blocking_def is_advisory_def
  names_until_end_def is_alltests_line_def rx_match_Seq

lemmas input_defs = py_lines_def quoted_def foo_path_def foo_one_line_def foo_layout_def
  foo_record_def let_layout_def let_record_def empty_registry_layout_def
  empty_registry_record_def two_registries_def nested_lines_def registry_line_def
  more_line_def label_line_def

text \<open>
  After a run of characters other than \<open>q\<close>, the character \<open>q\<close> matches only at the end
  of the run.
\<close>

lemma chr_after_run:
  assumes "k \<le> length (takeWhile p cs)" and "\<And>x. p x \<longleftrightarrow> x \<noteq> q"
  shows "rx_match (Chr q) b (drop k cs) =
           (if k = length (takeWhile p cs) \<and> dropWhile p cs \<noteq> []
            then [([], tl (dropWhile p cs))] else [])"
proof (cases "k = length (takeWhile p cs)")
  case True
  then have d: "drop k cs = dropWhile p cs"
    by (simp add: dropWhile_eq_drop)
  show ?thesis
  proof (cases "dropWhile p cs")
    case Nil
    with d True show ?thesis by simp
  next
    case (Cons x xs)
    then have "\<not> p x" using hd_dropWhile[of p cs] by auto
    with assms(2) have "x = q" by simp
    with d True Cons show ?thesis by simp
  qed
next
  case False
  with assms(1) have lt: "k < length (takeWhile p cs)" by simp
  then have "k < length cs" using length_takeWhile_le[of p cs] by simp
  then have dr: "drop k cs = cs ! k # drop (Suc k) cs"
    by (simp add: Cons_nth_drop_Suc)
  from lt have "p (cs ! k)"
    using nth_mem[OF lt] takeWhile_nth[OF lt] set_takeWhileD[of "takeWhile p cs ! k" p cs] by simp
  with assms(2) have "cs ! k \<noteq> q" by simp
  with dr False show ?thesis by simp
qed

text \<open>The pattern for a quoted name matches at a position in at most one way.\<close>

lemma rx_match_quoted:
  "rx_match quoted_pattern b s =
     (case s of [] \<Rightarrow> []
      | c # cs \<Rightarrow>
          if c = 34 \<and> takeWhile (\<lambda>x. x \<noteq> 34) cs \<noteq> [] \<and> dropWhile (\<lambda>x. x \<noteq> 34) cs \<noteq> []
          then [([takeWhile (\<lambda>x. x \<noteq> 34) cs], tl (dropWhile (\<lambda>x. x \<noteq> 34) cs))] else [])"
proof (cases s)
  case Nil
  then show ?thesis by (simp add: quoted_pattern_def ch_def)
next
  case (Cons c cs)
  define p :: "codepoint \<Rightarrow> bool" where "p = (\<lambda>x. x \<noteq> 34)"
  define n where "n = length (takeWhile p cs)"
  have inner: "rx_match (Seq (Grp (Plus p)) (Chr 34)) b' cs =
      (if takeWhile p cs \<noteq> [] \<and> dropWhile p cs \<noteq> []
       then [([takeWhile p cs], tl (dropWhile p cs))] else [])" for b'
  proof -
    define f where "f = (\<lambda>k. map (\<lambda>(g2, s2). ([take (length cs - length (drop k cs)) cs] @ g2, s2))
                            (rx_match (Chr 34) (b' \<and> length (drop k cs) = length cs) (drop k cs)))"
    have fk: "f k = (if k = n \<and> dropWhile p cs \<noteq> [] then [([take n cs], tl (dropWhile p cs))] else [])"
      if "k \<le> n" for k
    proof -
      from that have "k \<le> length cs" using length_takeWhile_le[of p cs] by (simp add: n_def)
      then have "length cs - length (drop k cs) = k" by simp
      with chr_after_run[of k p cs 34] that show ?thesis
        by (auto simp: f_def n_def p_def)
    qed
    have grp: "rx_match (Grp (Plus p)) b' cs =
        map (\<lambda>k. ([take (length cs - length (drop k cs)) cs], drop k cs)) (rev [1 ..< Suc n])"
      by (simp only: rx_match.simps map_map comp_def prod.case n_def)
    have sq: "rx_match (Seq (Grp (Plus p)) (Chr 34)) b' cs = concat (map f (rev [1 ..< Suc n]))"
      by (simp only: rx_match.simps(7) grp map_map comp_def prod.case f_def)
    show ?thesis
    proof (cases n)
      case 0
      then have "rev [1 ..< Suc n] = []" by simp
      with sq 0 show ?thesis by (simp add: n_def)
    next
      case (Suc m)
      have shape: "rev [1 ..< Suc n] = n # rev [1 ..< n]" using Suc by simp
      have lower: "concat (map f (rev [1 ..< n])) = []"
        by (simp add: fk)
      have tk: "take n cs = takeWhile p cs"
        unfolding n_def by (rule takeWhile_eq_take[symmetric])
      have "concat (map f (rev [1 ..< Suc n])) = f n @ concat (map f (rev [1 ..< n]))"
        by (simp only: shape list.map concat.simps)
      also have "\<dots> = (if dropWhile p cs \<noteq> [] then [([take n cs], tl (dropWhile p cs))] else [])"
        by (simp add: lower fk)
      finally show ?thesis using Suc tk sq by (auto simp: n_def)
    qed
  qed
  show ?thesis
    using Cons inner by (simp add: quoted_pattern_def ch_def p_def)
qed

lemma re_search_from_quoted:
  "re_search_from quoted_pattern b s = map_option (\<lambda>m. [m]) (first_literal s)"
  by (induction s arbitrary: b) (simp_all add: rx_match_quoted)

lemma quoted_name_first_literal:
  "quoted_name line = (case first_literal line of None \<Rightarrow> [] | Some m \<Rightarrow> [m])"
  by (simp add: quoted_name_def re_search_def re_search_from_quoted split: option.splits)

section \<open>Lemmas about the script\<close>

subsection \<open>Issues and their severity\<close>

lemma blocking_missing_property: "is_blocking missing_property_issue"
  by (simp add: is_blocking_def missing_property_issue_def)

lemma blocking_missing_methods: "is_blocking (missing_methods_issue ns)"
  by (simp add: is_blocking_def missing_methods_issue_def)

lemma not_blocking_signature: "\<not> is_blocking signature_issue"
  by (simp add: is_blocking_def signature_issue_def)

lemma not_blocking_extra: "\<not> is_blocking (extra_methods_issue ns)"
  by (simp add: is_blocking_def extra_methods_issue_def)

lemma py_set_diff_empty_iff: "py_set_diff xs ys = [] \<longleftrightarrow> set xs \<subseteq> set ys"
  by (auto simp: py_set_diff_def filter_empty_conv)

lemma check_equal_sets:
  assumes "has_alltests t" and "alltests_signature t = Some sig"
    and "set (alltests_methods t) = set (test_methods t)"
  shows "check_alltests_coverage set_iter t =
           Inr (if py_in (ascii ''static var allTests'') sig then [] else [signature_issue])"
  using assms by (simp add: check_alltests_coverage_def py_set_diff_empty_iff)

subsection \<open>The analysis\<close>

lemma try_patterns_eq:
  "try_patterns u ps line t =
     (if \<exists>p \<in> set ps. re_search p line \<noteq> None
      then t\<lparr>has_alltests := True, alltests_signature := Some (py_strip u line)\<rparr> else t)"
  by (induction ps) auto

lemma find_alltests_eq:
  "find_alltests u ls t =
     (if filter (is_alltests_line u) ls = [] then t
      else t\<lparr>has_alltests := True,
             alltests_signature := Some (py_strip u (last (filter (is_alltests_line u) ls)))\<rparr>)"
  by (induction ls arbitrary: t) (auto simp: try_patterns_eq is_alltests_line_def)

lemma consistent_find_alltests: "consistent t \<Longrightarrow> consistent (find_alltests u ls t)"
  by (simp add: find_alltests_eq consistent_def)

lemma consistent_analyze_lines: "consistent t \<Longrightarrow> consistent (analyze_lines u ls t)"
  using consistent_find_alltests[of t u ls]
  by (simp add: analyze_lines_def consistent_def Let_def)

lemma consistent_new: "consistent (new_TestClassInfo f c n)"
  by (simp add: consistent_def new_TestClassInfo_def)

lemma consistent_extract_lines: "t \<in> set (extract_lines u p i ls) \<Longrightarrow> consistent t"
  by (induction ls arbitrary: i) (auto simp: consistent_new split: option.splits list.splits)

lemma consistent_process_files:
  "process_files u fs = Inr ts \<Longrightarrow> t \<in> set ts \<Longrightarrow> consistent t"
proof (induction fs arbitrary: ts)
  case Nil
  then show ?case by simp
next
  case (Cons f fs)
  obtain p c where f: "f = (p, c)" by (cases f)
  from Cons.prems(1) f obtain content ts' where c: "c = Some content"
    and ts': "process_files u fs = Inr ts'"
    and ts: "ts = map (analyze_test_class u content) (extract_test_classes u p content) @ ts'"
    by (auto split: option.splits sum.splits)
  from Cons.prems(2) ts consider
    (new) t0 where "t0 \<in> set (extract_test_classes u p content)"
      "t = analyze_test_class u content t0"
    | (old) "t \<in> set ts'" by auto
  then show ?case
  proof cases
    case new
    then show ?thesis
      by (simp add: extract_test_classes_def analyze_test_class_def consistent_extract_lines
          consistent_analyze_lines)
  next
    case old
    with Cons.IH ts' show ?thesis by simp
  qed
qed

text \<open>The scan, once inside the registry, and up to the line that enters it.\<close>

lemma scan_inside:
  "scan_alltests u True ls = names_until_end u (filter (\<lambda>l. \<not> alltests_start l) ls)"
  by (induction ls) (auto simp: names_until_end_def)

lemma scan_before:
  "\<forall>l \<in> set pre. \<not> alltests_start l \<Longrightarrow> alltests_start d \<Longrightarrow>
   scan_alltests u False (pre @ d # rest) = scan_alltests u True rest"
  by (induction pre) auto

subsection \<open>The run\<close>

text \<open>The checker raises on no record that keeps the invariant, so the report is total.\<close>

lemma check_total:
  "consistent t \<Longrightarrow> \<exists>issues. check_alltests_coverage set_iter t = Inr issues"
  by (auto simp: check_alltests_coverage_def consistent_def Let_def split: option.splits)

lemma report_total:
  "\<forall>t \<in> set ts. consistent t \<Longrightarrow> \<exists>out issues. report set_iter ts = Inr (out, issues)"
proof (induction ts)
  case Nil
  then show ?case by simp
next
  case (Cons t ts)
  then obtain issues out all where "check_alltests_coverage set_iter t = Inr issues"
    "report set_iter ts = Inr (out, all)"
    using check_total[of t set_iter] by auto
  then show ?case by simp
qed

lemma process_files_Inr_iff:
  "(\<exists>ts. process_files u fs = Inr ts) \<longleftrightarrow> \<not> list_ex (\<lambda>f. snd f = None) fs"
  by (induction fs) (auto split: option.splits sum.splits)

lemma process_files_Inl:
  "list_ex (\<lambda>f. snd f = None) fs \<Longrightarrow> \<exists>e. process_files u fs = Inl e"
  using process_files_Inr_iff[of u fs] by (cases "process_files u fs") auto

text \<open>The four ways through \<open>main\<close>.\<close>

lemma main_no_files:
  "snd (find_test_files d) = [] \<Longrightarrow>
   main u set_iter d = Inr (banner d @ [[0x274C] @ ascii '' No test files found''], 1)"
  by (cases "find_test_files d") (simp add: main_def banner_def)

lemma main_read_error:
  "snd (find_test_files d) \<noteq> [] \<Longrightarrow> process_files u (snd (find_test_files d)) = Inl e \<Longrightarrow>
   main u set_iter d = Inl e"
  by (cases "find_test_files d") (simp add: main_def)


lemma main_reported:
  "snd (find_test_files d) \<noteq> [] \<Longrightarrow> process_files u (snd (find_test_files d)) = Inr ts \<Longrightarrow>
   report set_iter ts = Inr (out, issues) \<Longrightarrow>
   main u set_iter d =
     Inr (banner d @ [summary_line (length ts) (length (snd (find_test_files d)))] @ out
            @ (if issues = [] then success_lines else failure_lines (length issues)),
          if issues = [] then 0 else 1)"
  by (cases "find_test_files d") (simp add: main_def banner_def)

text \<open>
  The status of a run: 1 when no file is found, when a file cannot be read, and when any
  issue is accumulated; 0 otherwise.
\<close>

lemma exit_status_main:
  "exit_status (main u set_iter d) =
     (if snd (find_test_files d) = [] \<or> read_fails d \<or> run_issues u set_iter d \<noteq> []
      then 1 else 0)"
proof (cases "snd (find_test_files d) = []")
  case True
  then show ?thesis
    by (simp add: main_no_files exit_status_def)
next
  case files: False
  show ?thesis
  proof (cases "read_fails d")
    case True
    then obtain e where "process_files u (snd (find_test_files d)) = Inl e"
      using process_files_Inl unfolding read_fails_def by blast
    with files True show ?thesis
      by (simp add: main_read_error exit_status_def)
  next
    case False
    then obtain ts where ts: "process_files u (snd (find_test_files d)) = Inr ts"
      using process_files_Inr_iff[of u "snd (find_test_files d)"]
      unfolding read_fails_def by blast
    then have "\<forall>t \<in> set ts. consistent t"
      using consistent_process_files by blast
    then obtain out issues where r: "report set_iter ts = Inr (out, issues)"
      using report_total by blast
    from ts r have "run_issues u set_iter d = issues"
      by (simp add: run_issues_def run_classes_def)
    with files False show ?thesis
      by (simp add: main_reported[OF files ts r] exit_status_def)
  qed
qed

subsection \<open>Groups, lines, and termination of a run\<close>

text \<open>Every match of a pattern without groups under alternatives has all its groups.\<close>

lemma rx_match_groups:
  "plain r \<Longrightarrow> (g, s') \<in> set (rx_match r b s) \<Longrightarrow> length g = groups r"
proof (induction r arbitrary: g s' b s)
  case (Seq r1 r2)
  then show ?case by (fastforce)
qed (auto split: list.splits if_splits)

lemma re_match_groups:
  "plain r \<Longrightarrow> re_match r s = Some g \<Longrightarrow> length g = groups r"
  using rx_match_groups[of r g _ True s]
  by (auto simp: re_match_def split: list.splits)

lemma re_search_from_groups:
  "plain r \<Longrightarrow> re_search_from r b s = Some g \<Longrightarrow> length g = groups r"
proof (induction s arbitrary: b)
  case Nil
  then show ?case
    using rx_match_groups[of r g _ b "[]"] by (auto split: list.splits)
next
  case (Cons c cs)
  then show ?case
    using rx_match_groups[of r g _ b "c # cs"] by (auto split: list.splits)
qed

lemma class_pattern_groups: "plain (class_pattern u) \<and> groups (class_pattern u) = 1"
  by (simp add: class_pattern_def lit_def ch_def)

lemma test_method_pattern_groups:
  "plain (test_method_pattern u) \<and> groups (test_method_pattern u) = 1"
  by (simp add: test_method_pattern_def lit_def ch_def)

lemma quoted_pattern_groups: "plain quoted_pattern \<and> groups quoted_pattern = 1"
  by (simp add: quoted_pattern_def lit_def ch_def)

text \<open>So a match of one of the three patterns with a group always has its group 1.\<close>

lemma class_pattern_group1:
  "re_match (class_pattern u) s = Some g \<Longrightarrow> \<exists>name. g = [name]"
  using re_match_groups[of "class_pattern u" s g] class_pattern_groups[of u]
  by (cases g) auto

lemma test_method_pattern_group1:
  "re_search (test_method_pattern u) s = Some g \<Longrightarrow> \<exists>name. g = [name]"
  using re_search_from_groups[of "test_method_pattern u" True s g] test_method_pattern_groups[of u]
  by (cases g) (auto simp: re_search_def)

lemma quoted_pattern_group1:
  "re_search quoted_pattern s = Some g \<Longrightarrow> \<exists>name. g = [name]"
  using re_search_from_groups[of quoted_pattern True s g] quoted_pattern_groups
  by (cases g) (auto simp: re_search_def)

text \<open>Splitting at a separator loses nothing, and no line holds the separator.\<close>

lemma py_split_not_Nil: "py_split sep s \<noteq> []"
  by (induction s) (auto split: list.splits)

lemma py_join_Cons: "ys \<noteq> [] \<Longrightarrow> py_join sep (x # ys) = x @ sep @ py_join sep ys"
  by (cases ys) auto

lemma py_join_split: "py_join [sep] (py_split sep s) = s"
proof (induction s)
  case Nil
  then show ?case by simp
next
  case (Cons c cs)
  then show ?case
    using py_split_not_Nil[of sep cs]
    by (cases "py_split sep cs"; cases "tl (py_split sep cs)") (auto simp: py_join_Cons)
qed

lemma py_split_no_sep: "line \<in> set (py_split sep s) \<Longrightarrow> sep \<notin> set line"
  by (induction s arbitrary: line) (auto split: list.splits if_splits)

text \<open>A run returns unless a file cannot be read.\<close>

lemma main_returns:
  assumes "\<not> read_fails d"
  shows "\<exists>out code. main u set_iter d = Inr (out, code)"
proof (cases "snd (find_test_files d) = []")
  case True
  then show ?thesis by (simp add: main_no_files)
next
  case files: False
  from assms obtain ts where ts: "process_files u (snd (find_test_files d)) = Inr ts"
    using process_files_Inr_iff[of u "snd (find_test_files d)"] unfolding read_fails_def by blast
  then have "\<forall>t \<in> set ts. consistent t"
    using consistent_process_files by blast
  then obtain out issues where "report set_iter ts = Inr (out, issues)"
    using report_total by blast
  from main_reported[OF files ts this] show ?thesis by blast
qed

text \<open>What the direct definition of the first literal finds is a literal, and the first.\<close>

lemma first_literal_Some:
  "first_literal s = Some m \<Longrightarrow>
   \<exists>a b. s = a @ [34] @ m @ [34] @ b \<and> m \<noteq> [] \<and> 34 \<notin> set m \<and> first_literal (a @ [34]) = None"
proof (induction s)
  case Nil
  then show ?case by simp
next
  case (Cons c cs)
  let ?p = "\<lambda>x::nat. x \<noteq> 34"
  show ?case
  proof (cases "c = 34 \<and> takeWhile ?p cs \<noteq> [] \<and> dropWhile ?p cs \<noteq> []")
    case True
    with Cons.prems have m: "m = takeWhile ?p cs" by simp
    from True obtain x xs where d: "dropWhile ?p cs = x # xs" by (cases "dropWhile ?p cs") auto
    then have "x = 34" using hd_dropWhile[of ?p cs] by auto
    with d have "cs = m @ [34] @ xs"
      using takeWhile_dropWhile_id[of ?p cs] m by simp
    moreover have "34 \<notin> set m" using m by (auto dest: set_takeWhileD)
    ultimately have "c # cs = [] @ [34] @ m @ [34] @ xs \<and> m \<noteq> [] \<and> 34 \<notin> set m
        \<and> first_literal ([] @ [34]) = None"
      using True m by simp
    then show ?thesis by blast
  next
    case False
    with Cons.prems have "first_literal cs = Some m" by auto
    with Cons.IH obtain a b where ab: "cs = a @ [34] @ m @ [34] @ b" "m \<noteq> []" "34 \<notin> set m"
      "first_literal (a @ [34]) = None" by blast
    have "first_literal ((c # a) @ [34]) = None"
    proof (cases "c = 34 \<and> takeWhile ?p (a @ [34]) \<noteq> [] \<and> dropWhile ?p (a @ [34]) \<noteq> []")
      case True
      then have c: "c = 34" and tw: "takeWhile ?p (a @ [34]) \<noteq> []" by auto
      from tw have "takeWhile ?p cs \<noteq> []"
        using ab(1) by (cases a) auto
      moreover have "dropWhile ?p cs \<noteq> []"
        using ab(1) by (auto simp: dropWhile_eq_Nil_conv)
      ultimately show ?thesis using False c by simp
    next
      case False
      with ab(4) show ?thesis by auto
    qed
    with ab show ?thesis
      by (intro exI[of _ "c # a"] exI[of _ b]) simp
  qed
qed

lemma first_literal_None:
  assumes "first_literal s = None"
  shows "\<not> (\<exists>a m b. s = a @ [34] @ m @ [34] @ b \<and> m \<noteq> [] \<and> 34 \<notin> set m)"
  using assms
proof (induction s)
  case Nil
  then show ?case by simp
next
  case (Cons c cs)
  let ?p = "\<lambda>x::nat. x \<noteq> 34"
  from Cons.prems have no: "\<not> (c = 34 \<and> takeWhile ?p cs \<noteq> [] \<and> dropWhile ?p cs \<noteq> [])"
    and rest: "first_literal cs = None"
    by (auto split: if_splits)
  show ?case
  proof
    assume "\<exists>a m b. c # cs = a @ [34] @ m @ [34] @ b \<and> m \<noteq> [] \<and> 34 \<notin> set m"
    then obtain a m b where s: "c # cs = a @ [34] @ m @ [34] @ b" and m: "m \<noteq> []" "34 \<notin> set m"
      by blast
    show False
    proof (cases a)
      case Nil
      with s have c: "c = 34" and cs: "cs = m @ 34 # b" by auto
      from m(2) have all: "\<forall>x \<in> set m. x \<noteq> 34" by auto
      have "takeWhile ?p cs = m" "dropWhile ?p cs = 34 # b"
        unfolding cs using all by (induction m) auto
      with no c m(1) show False by simp
    next
      case (Cons x a')
      with s have "cs = a' @ [34] @ m @ [34] @ b" by simp
      with Cons.IH[OF rest] m show False by blast
    qed
  qed
qed

lemma run_classes_Some:
  "process_files u fs = Inr ts \<Longrightarrow> run_classes u (Some fs) = ts"
  by (simp add: run_classes_def find_test_files_def)

lemma run_issues_Some:
  "process_files u fs = Inr ts \<Longrightarrow> report set_iter ts = Inr (out, issues) \<Longrightarrow>
   run_issues u set_iter (Some fs) = issues"
  by (simp add: run_issues_def run_classes_Some)

subsection \<open>Two runs that differ in the order of set iteration\<close>


text \<open>Only lines of the same issue with the same names are the same but for the order.\<close>

lemma same_but_order_Missing:
  "same_but_order (Missing_names ns) y \<longleftrightarrow> (\<exists>ms. y = Missing_names ms \<and> mset ns = mset ms)"
  by (cases y) auto

lemma same_but_order_Extra:
  "same_but_order (Extra_names ns) y \<longleftrightarrow> (\<exists>ms. y = Extra_names ms \<and> mset ns = mset ms)"
  by (cases y) auto

lemma same_but_order_Plain:
  "same_but_order (Plain a) y \<longleftrightarrow> y = Plain a"
  by (cases y) auto








subsection \<open>The example inputs, evaluated\<close>

lemma foo_layout_classes:
  "process_files u [(foo_path, Some foo_layout)] = Inr [foo_record]"
  by (simp del: rx_match.simps(7) add: eval_defs input_defs)

lemma foo_one_line_classes:
  "process_files u [(foo_path, Some foo_one_line)]
     = Inr [new_TestClassInfo foo_path (ascii ''FooTests'') 1]"
  by (simp del: rx_match.simps(7) add: eval_defs input_defs)

lemma let_layout_classes:
  "process_files u [(foo_path, Some let_layout)] = Inr [let_record]"
  by (simp del: rx_match.simps(7) add: eval_defs input_defs)


lemma foo_record_check:
  "check_alltests_coverage set_iter foo_record
     = Inr [missing_methods_issue (set_iter [ascii ''testB''])]"
  by (simp add: check_alltests_coverage_def py_set_diff_def foo_record_def ascii_def)

lemma let_record_check:
  "check_alltests_coverage set_iter let_record = Inr [signature_issue]"
  by (simp add: check_alltests_coverage_def py_set_diff_def let_record_def ascii_def)


lemma foo_layout_issues:
  "run_issues u set_iter (Some [(foo_path, Some foo_layout)])
     = [missing_methods_issue (set_iter [ascii ''testB''])]"
  by (simp add: run_issues_def run_classes_Some[OF foo_layout_classes] foo_record_check)

lemma let_layout_issues:
  "run_issues u set_iter (Some [(foo_path, Some let_layout)]) = [signature_issue]"
  by (simp add: run_issues_def run_classes_Some[OF let_layout_classes] let_record_check)


section \<open>The claims\<close>

subsection \<open>C1: the exit status and the severity of issues\<close>

text \<open>
  C1 says that the exit status is non-zero exactly when a blocking issue was emitted, and
  that advisory issues alone never make it non-zero. The script does not look at the
  severity: a complete registry declared with \<^verbatim>\<open>let\<close> draws the advisory about the
  signature alone, and the run ends with status 1.
\<close>

theorem advisory_only_exit_counterexample:
  "\<not> (exit_status (main ascii_db id (Some [(foo_path, Some let_layout)])) \<noteq> 0
        \<longleftrightarrow> list_ex is_blocking (run_issues ascii_db id (Some [(foo_path, Some let_layout)])))"
  by (simp add: exit_status_main let_layout_issues not_blocking_signature)

text \<open>
  C1, as the script has it: the exit status is non-zero exactly when no test file is found,
  a file cannot be read, or at least one issue of either severity is accumulated. So a
  blocking issue always makes the status non-zero, and so does an advisory one.
\<close>

theorem exit_status_nonzero_iff:
  "(exit_status (main u set_iter d) \<noteq> 0
      \<longleftrightarrow> snd (find_test_files d) = [] \<or> read_fails d \<or> run_issues u set_iter d \<noteq> [])
   \<and> (list_ex is_blocking (run_issues u set_iter d) \<longrightarrow> exit_status (main u set_iter d) \<noteq> 0)
   \<and> (list_ex is_advisory (run_issues u set_iter d) \<longrightarrow> exit_status (main u set_iter d) \<noteq> 0)"
  by (auto simp: exit_status_main)

theorem exit_status_nonzero_iff_witness:
  "list_ex is_blocking (run_issues ascii_db id (Some [(foo_path, Some foo_layout)]))
   \<and> exit_status (main ascii_db id (Some [(foo_path, Some foo_layout)])) \<noteq> 0
   \<and> list_ex is_advisory (run_issues ascii_db id (Some [(foo_path, Some let_layout)]))
   \<and> exit_status (main ascii_db id (Some [(foo_path, Some let_layout)])) \<noteq> 0"
  using exit_status_nonzero_iff[of ascii_db id "Some [(foo_path, Some foo_layout)]"]
    exit_status_nonzero_iff[of ascii_db id "Some [(foo_path, Some let_layout)]"]
  by (simp add: foo_layout_issues let_layout_issues blocking_missing_methods
      is_advisory_def signature_issue_def)

subsection \<open>C2: the scenario of one class with an incomplete registry\<close>

text \<open>
  C2 takes a file whose whole content is one line. The patterns for the registry and for
  the test methods are anchored at the start of a line, and that line starts with the class
  declaration: one class is extracted, but no test method and no registry are found, and
  the one issue is the missing registry.
\<close>

theorem foo_one_line_counterexample:
  "run_classes ascii_db (Some [(foo_path, Some foo_one_line)])
     = [new_TestClassInfo foo_path (ascii ''FooTests'') 1]
   \<and> map test_methods (run_classes ascii_db (Some [(foo_path, Some foo_one_line)]))
       \<noteq> [[ascii ''testA'', ascii ''testB'']]
   \<and> map alltests_methods (run_classes ascii_db (Some [(foo_path, Some foo_one_line)]))
       \<noteq> [[ascii ''testA'']]
   \<and> run_issues ascii_db id (Some [(foo_path, Some foo_one_line)]) = [missing_property_issue]"
  by (simp add: run_issues_def run_classes_Some[OF foo_one_line_classes] new_TestClassInfo_def
      check_alltests_coverage_def ascii_def)

text \<open>
  C2, for the same declarations written one per line with the entry of the registry on a
  line of its own: one class is extracted, its test methods are testA and testB, its
  registry lists testA, the one issue is blocking and reports testB as missing, and the
  exit status is 1. (Iterating over the one-element set yields its element.)
\<close>

theorem foo_layout_scenario:
  assumes "set_iter [ascii ''testB''] = [ascii ''testB'']"
  shows "run_classes u (Some [(foo_path, Some foo_layout)]) = [foo_record]
    \<and> test_methods foo_record = [ascii ''testA'', ascii ''testB'']
    \<and> alltests_methods foo_record = [ascii ''testA'']
    \<and> run_issues u set_iter (Some [(foo_path, Some foo_layout)])
        = [missing_methods_issue [ascii ''testB'']]
    \<and> is_blocking (missing_methods_issue [ascii ''testB''])
    \<and> exit_status (main u set_iter (Some [(foo_path, Some foo_layout)])) = 1"
  using assms
  by (simp add: run_classes_Some[OF foo_layout_classes] foo_layout_issues exit_status_main
      blocking_missing_methods foo_record_def)

theorem foo_layout_scenario_witness:
  "id [ascii ''testB''] = [ascii ''testB'']
   \<and> run_classes ascii_db (Some [(foo_path, Some foo_layout)]) = [foo_record]
   \<and> run_issues ascii_db id (Some [(foo_path, Some foo_layout)])
       = [missing_methods_issue [ascii ''testB'']]
   \<and> exit_status (main ascii_db id (Some [(foo_path, Some foo_layout)])) = 1"
  using foo_layout_scenario[of id ascii_db] by simp

subsection \<open>C3: which declaration line becomes the signature\<close>

text \<open>
  C3 says that the signature is the trimmed text of the first line that matches a
  declaration pattern. The \<^verbatim>\<open>break\<close> leaves the loop over the patterns only; the loop
  over the lines goes on, and a later matching line overwrites the signature.
\<close>

theorem registry_signature_first_counterexample:
  "list_ex (is_alltests_line ascii_db) (py_split 10 two_registries)
   \<and> alltests_signature
        (analyze_test_class ascii_db two_registries (new_TestClassInfo foo_path (ascii ''FooTests'') 1))
       \<noteq> Some (py_strip ascii_db (hd (filter (is_alltests_line ascii_db) (py_split 10 two_registries))))"
  by (simp del: rx_match.simps(7) add: eval_defs input_defs find_alltests_eq)

text \<open>
  C3, as the script has it: for every file with at least one line that matches a
  declaration pattern, after the analysis the flag is set and the signature is the trimmed
  text of the last such line of the file.
\<close>

theorem registry_signature_last_match:
  assumes "\<exists>line \<in> set (py_split 10 content). is_alltests_line u line"
  shows "has_alltests (analyze_test_class u content t)
    \<and> alltests_signature (analyze_test_class u content t)
        = Some (py_strip u (last (filter (is_alltests_line u) (py_split 10 content))))"
proof -
  from assms have "filter (is_alltests_line u) (py_split 10 content) \<noteq> []"
    by (simp add: filter_empty_conv)
  then show ?thesis
    by (simp add: analyze_test_class_def analyze_lines_def Let_def find_alltests_eq)
qed

theorem registry_signature_last_match_witness:
  "(\<exists>line \<in> set (py_split 10 two_registries). is_alltests_line ascii_db line)
   \<and> alltests_signature
        (analyze_test_class ascii_db two_registries (new_TestClassInfo foo_path (ascii ''FooTests'') 1))
       = Some (ascii ''static let allTests = ['')"
  using registry_signature_last_match[of two_registries ascii_db
      "new_TestClassInfo foo_path (ascii ''FooTests'') 1"]
  by (simp del: rx_match.simps(7) add: eval_defs input_defs)

subsection \<open>C4: the exit status and the test directory\<close>

text \<open>
  C4 says that the exit status is 0 when the directory exists and no issue accumulates,
  also when the directory holds no test file. The script returns 1 as soon as the list of
  test files is empty, whether the directory is missing or holds no such file.
\<close>

theorem empty_directory_exit_counterexample:
  "run_issues ascii_db id (Some []) = [] \<and> exit_status (main ascii_db id (Some [])) \<noteq> 0"
  by (simp add: exit_status_main run_issues_def run_classes_def find_test_files_def)

text \<open>
  C4, as the script has it: the exit status is 0 exactly when the directory exists, holds
  at least one test file, every file can be read, and no issue accumulates; it is 1 exactly
  when the directory is missing, holds no test file, a file cannot be read, or issues were
  found.
\<close>

theorem exit_status_zero_iff:
  "(exit_status (main u set_iter d) = 0
      \<longleftrightarrow> (\<exists>files. d = Some files \<and> files \<noteq> []) \<and> \<not> read_fails d
           \<and> run_issues u set_iter d = [])
   \<and> (exit_status (main u set_iter d) = 1
      \<longleftrightarrow> d = None \<or> d = Some [] \<or> read_fails d \<or> run_issues u set_iter d \<noteq> [])"
  by (cases d) (auto simp: exit_status_main find_test_files_def)

theorem exit_status_zero_iff_witness:
  "\<not> read_fails (Some [(foo_path, Some (ascii ''import XCTest''))])
   \<and> run_issues ascii_db id (Some [(foo_path, Some (ascii ''import XCTest''))]) = []
   \<and> exit_status (main ascii_db id (Some [(foo_path, Some (ascii ''import XCTest''))])) = 0
   \<and> exit_status (main ascii_db id None) = 1"
  using exit_status_zero_iff[of ascii_db id "Some [(foo_path, Some (ascii ''import XCTest''))]"]
    exit_status_zero_iff[of ascii_db id None]
  by (simp del: rx_match.simps(7)
      add: eval_defs read_fails_def run_issues_def run_classes_def)

subsection \<open>C5: a record without a registry\<close>

text \<open>
  C5: for every record whose flag is not set, the checker returns exactly one issue, the
  blocking issue of the missing registry property, whatever the signature, the method
  lists and the order of set iteration are: no style check and no coverage check is made.
\<close>

theorem check_without_registry:
  "\<not> has_alltests t \<Longrightarrow>
   check_alltests_coverage set_iter t = Inr [missing_property_issue]
   \<and> is_blocking missing_property_issue"
  by (simp add: check_alltests_coverage_def blocking_missing_property)

theorem check_without_registry_witness:
  "\<not> has_alltests (new_TestClassInfo foo_path (ascii ''FooTests'') 1)
   \<and> check_alltests_coverage id (new_TestClassInfo foo_path (ascii ''FooTests'') 1)
       = Inr [missing_property_issue]"
  using check_without_registry[of "new_TestClassInfo foo_path (ascii ''FooTests'') 1" id]
  by (simp add: new_TestClassInfo_def)

subsection \<open>C6: a registry that lists the test methods in any order\<close>

text \<open>
  C6: for every analyzed record with a registry (flag set, signature present), if the
  names in the registry and the names of the test methods are the same set, the checker
  returns a list of issues none of which is blocking.
\<close>

theorem check_equal_sets_no_blocking:
  assumes "has_alltests t" and "alltests_signature t \<noteq> None"
    and "set (alltests_methods t) = set (test_methods t)"
  shows "\<exists>issues. check_alltests_coverage set_iter t = Inr issues
                  \<and> \<not> list_ex is_blocking issues"
proof -
  from assms(2) obtain sig where "alltests_signature t = Some sig" by auto
  with assms(1,3) show ?thesis
    by (simp add: check_equal_sets not_blocking_signature)
qed

theorem check_equal_sets_no_blocking_witness:
  "has_alltests swapped_record \<and> alltests_signature swapped_record \<noteq> None
   \<and> set (alltests_methods swapped_record) = set (test_methods swapped_record)
   \<and> alltests_methods swapped_record \<noteq> test_methods swapped_record
   \<and> (\<exists>issues. check_alltests_coverage id swapped_record = Inr issues
        \<and> \<not> list_ex is_blocking issues)"
  using check_equal_sets_no_blocking[of swapped_record id]
  by (auto simp: swapped_record_def ascii_def)

subsection \<open>C7: the scan inside the registry\<close>

text \<open>
  C7 says that the scan stops at the first line read inside the registry whose trimmed
  text ends with the closing bracket. A line that holds the three words of a declaration
  is skipped before that test, also inside the registry: the scan goes past it.
\<close>

theorem scan_stop_counterexample:
  "array_end ascii_db (hd nested_lines)
   \<and> scan_alltests ascii_db True nested_lines \<noteq> names_until_end ascii_db nested_lines"
  by (simp del: rx_match.simps(7) add: eval_defs input_defs)

text \<open>
  C7, as the script has it: inside the registry, the lines that hold the three words of a
  declaration are skipped whole; each other line contributes at most one name, its first
  quoted literal, and the scan stops at the first of these other lines whose trimmed text
  ends with the closing bracket.
\<close>

theorem scan_inside_registry:
  "scan_alltests u True ls
     = concat (map quoted_name
         (take_through (array_end u) (filter (\<lambda>line. \<not> alltests_start line) ls)))
   \<and> (\<forall>line. quoted_name line = (case first_literal line of None \<Rightarrow> [] | Some m \<Rightarrow> [m]))
   \<and> (\<forall>line. length (quoted_name line) \<le> 1)"
  using scan_inside[of u ls]
  by (auto simp: names_until_end_def quoted_name_first_literal split: option.splits)

theorem scan_inside_registry_witness:
  "scan_alltests ascii_db True nested_lines = [ascii ''testX'']
   \<and> quoted_name (hd (tl nested_lines)) = [ascii ''testX'']
   \<and> first_literal (hd (tl nested_lines)) = Some (ascii ''testX'')"
  using scan_inside_registry[of ascii_db nested_lines]
  by (simp add: input_defs alltests_start_def array_end_def py_strip_def py_endswith_def
      is_space_def ascii_db_def ascii_def)

subsection \<open>C8: two runs on the same tree\<close>




subsection \<open>C9: the flag and the signature\<close>

text \<open>
  C9: in every record that a run has analyzed, the flag is set if and only if the signature
  is present. The constructor sets neither, the analysis sets both at once, and the checker
  changes no record.
\<close>

theorem registry_fields_consistent:
  "\<forall>t \<in> set (run_classes u d). has_alltests t \<longleftrightarrow> alltests_signature t \<noteq> None"
proof (cases "process_files u (snd (find_test_files d))")
  case (Inl e)
  then show ?thesis by (simp add: run_classes_def)
next
  case (Inr ts)
  then show ?thesis
    using consistent_process_files[OF Inr]
    by (simp add: run_classes_def consistent_def)
qed

theorem registry_fields_consistent_witness:
  "foo_record \<in> set (run_classes ascii_db (Some [(foo_path, Some foo_layout)]))
   \<and> has_alltests foo_record \<and> alltests_signature foo_record \<noteq> None
   \<and> new_TestClassInfo foo_path (ascii ''FooTests'') 1
        \<in> set (run_classes ascii_db (Some [(foo_path, Some foo_one_line)]))
   \<and> \<not> has_alltests (new_TestClassInfo foo_path (ascii ''FooTests'') 1)
   \<and> alltests_signature (new_TestClassInfo foo_path (ascii ''FooTests'') 1) = None"
  using registry_fields_consistent[of ascii_db "Some [(foo_path, Some foo_layout)]"]
    registry_fields_consistent[of ascii_db "Some [(foo_path, Some foo_one_line)]"]
  by (simp add: run_classes_Some[OF foo_layout_classes] run_classes_Some[OF foo_one_line_classes]
      foo_record_def new_TestClassInfo_def)

subsection \<open>C10: a registry written on one line\<close>

text \<open>
  C10 says that after a declaration line that is skipped, every later line of the file
  contributes its first quoted literal, until a line ends with the closing bracket. A later
  line that holds the three words of a declaration is skipped as well, with its literal
  and its bracket.
\<close>

theorem single_line_registry_counterexample:
  "py_split 10 (py_lines [registry_line, more_line]) = [registry_line, more_line]
   \<and> alltests_start registry_line \<and> array_end ascii_db registry_line
   \<and> quoted_name registry_line \<noteq> []
   \<and> alltests_methods
        (analyze_test_class ascii_db (py_lines [registry_line, more_line])
           (new_TestClassInfo foo_path (ascii ''FooTests'') 1))
       \<noteq> names_until_end ascii_db [more_line]"
  by (simp del: rx_match.simps(7) add: eval_defs input_defs)

text \<open>
  C10, as the script has it: the first line of the file that holds the three words of a
  declaration is skipped whole, whatever it contains: none of its literals is captured and
  its closing bracket does not end the scan. Of the lines after it, those that hold the
  three words are skipped too; each other one contributes its first quoted literal, until
  one of these ends with the closing bracket or the file ends.
\<close>

theorem scan_after_declaration:
  assumes "py_split 10 content = pre @ d # rest"
    and "\<forall>line \<in> set pre. \<not> alltests_start line"
    and "alltests_start d"
    and "\<exists>line \<in> set (py_split 10 content). is_alltests_line u line"
  shows "alltests_methods (analyze_test_class u content (new_TestClassInfo f c n))
           = names_until_end u (filter (\<lambda>line. \<not> alltests_start line) rest)"
proof -
  from assms(4) have "filter (is_alltests_line u) (py_split 10 content) \<noteq> []"
    by (simp add: filter_empty_conv)
  then have "alltests_methods (analyze_test_class u content (new_TestClassInfo f c n))
               = scan_alltests u False (py_split 10 content)"
    by (simp add: analyze_test_class_def analyze_lines_def Let_def find_alltests_eq
        new_TestClassInfo_def)
  also have "\<dots> = scan_alltests u True rest"
    using assms(1-3) by (simp add: scan_before)
  finally show ?thesis by (simp add: scan_inside)
qed

theorem scan_after_declaration_witness:
  "py_split 10 (py_lines [ascii ''import XCTest'', registry_line, ascii ''}'', label_line])
     = [ascii ''import XCTest''] @ registry_line # [ascii ''}'', label_line]
   \<and> \<not> alltests_start (ascii ''import XCTest'')
   \<and> alltests_start registry_line
   \<and> (\<exists>line \<in> set (py_split 10
          (py_lines [ascii ''import XCTest'', registry_line, ascii ''}'', label_line])).
         is_alltests_line ascii_db line)
   \<and> alltests_methods
        (analyze_test_class ascii_db
           (py_lines [ascii ''import XCTest'', registry_line, ascii ''}'', label_line])
           (new_TestClassInfo foo_path (ascii ''FooTests'') 1))
       = [ascii ''done'']"
  using scan_after_declaration[of
      "py_lines [ascii ''import XCTest'', registry_line, ascii ''}'', label_line]"
      "[ascii ''import XCTest'']" registry_line "[ascii ''}'', label_line]" ascii_db foo_path
      "ascii ''FooTests''" 1]
  by (simp del: rx_match.simps(7) add: eval_defs input_defs)

end
